theory Spec2Isabelle
  imports Main "HOL-Library.AList"
begin

section \<open>Strings as Python uses them\<close>

text \<open>
  The embedded module is \<^verbatim>\<open>resources/codewalker_xml.py\<close>. A Python \<^verbatim>\<open>str\<close> is a
  \<^typ>\<open>string\<close>; the characters are the ASCII ones. The builtin string methods the module
  calls (\<^verbatim>\<open>strip\<close>, \<^verbatim>\<open>split\<close>, \<^verbatim>\<open>lower\<close>, \<^verbatim>\<open>join\<close>, \<^verbatim>\<open>replace\<close>, \<^verbatim>\<open>find\<close>) are written out.
\<close>

abbreviation NL :: char where
  "NL \<equiv> CHR 0x0A"

definition is_space :: "char \<Rightarrow> bool" where
  \<comment> \<open>\<^verbatim>\<open>str.isspace\<close> on ASCII: TAB, LF, VT, FF, CR, FS, GS, RS, US and the blank.\<close>
  "is_space c \<longleftrightarrow>
     c \<in> set [CHR 0x09, CHR 0x0A, CHR 0x0B, CHR 0x0C, CHR 0x0D,
                CHR 0x1C, CHR 0x1D, CHR 0x1E, CHR 0x1F, CHR 0x20]"

definition strip :: "string \<Rightarrow> string" where
  "strip s = rev (dropWhile is_space (rev (dropWhile is_space s)))"

fun split :: "char \<Rightarrow> string \<Rightarrow> string list" where
  \<comment> \<open>\<^verbatim>\<open>s.split(sep)\<close> for a one-character separator: never the empty list.\<close>
  "split sep [] = [[]]"
| "split sep (c # cs) =
     (if c = sep then [] # split sep cs
      else (case split sep cs of
              [] \<Rightarrow> [[c]]
            | w # ws \<Rightarrow> (c # w) # ws))"

fun join :: "string \<Rightarrow> string list \<Rightarrow> string" where
  "join sep [] = []"
| "join sep [w] = w"
| "join sep (w # v # ws) = w @ sep @ join sep (v # ws)"

definition lower_char :: "char \<Rightarrow> char" where
  "lower_char c =
     (let n = (of_char c :: nat) in if 65 \<le> n \<and> n \<le> 90 then char_of (n + 32) else c)"

definition lower :: "string \<Rightarrow> string" where
  "lower s = map lower_char s"

definition is_digit :: "char \<Rightarrow> bool" where
  "is_digit c \<longleftrightarrow> (let n = (of_char c :: nat) in 48 \<le> n \<and> n \<le> 57)"

definition digit_val :: "char \<Rightarrow> nat" where
  "digit_val c = of_char c - 48"

definition digit_char :: "nat \<Rightarrow> char" where
  "digit_char d = char_of (d + 48)"

section \<open>The builtins \<^verbatim>\<open>int()\<close>, \<^verbatim>\<open>float()\<close> and \<^verbatim>\<open>str()\<close>\<close>

text \<open>
  \<^verbatim>\<open>get_str_type\<close> decides by whether \<^verbatim>\<open>int(value)\<close> and \<^verbatim>\<open>float(value)\<close> raise. Both
  builtins are modelled on ASCII input after the grammar of the language reference:
  surrounding whitespace is dropped, a sign is optional, digits may be grouped by single
  underscores.
\<close>

fun digitpart :: "string \<Rightarrow> string option" where
  \<comment> \<open>\<^verbatim>\<open>digit (["_"] digit)*\<close>; the result is the digits without the underscores.\<close>
  "digitpart [] = None"
| "digitpart [c] = (if is_digit c then Some [c] else None)"
| "digitpart (c # d # cs) =
     (if \<not> is_digit c then None
      else if d = CHR ''_'' then map_option ((#) c) (digitpart cs)
      else map_option ((#) c) (digitpart (d # cs)))"

definition nat_of_digits :: "string \<Rightarrow> nat" where
  "nat_of_digits ds = foldl (\<lambda>a c. 10 * a + digit_val c) 0 ds"

definition py_int :: "string \<Rightarrow> int option" where
  \<comment> \<open>\<^verbatim>\<open>int(s)\<close> in base ten; \<open>None\<close> where Python raises ValueError.\<close>
  "py_int s =
     (case strip s of
        [] \<Rightarrow> None
      | c # r \<Rightarrow>
          if c = CHR ''-'' then map_option (\<lambda>ds. - int (nat_of_digits ds)) (digitpart r)
          else if c = CHR ''+'' then map_option (\<lambda>ds. int (nat_of_digits ds)) (digitpart r)
          else map_option (\<lambda>ds. int (nat_of_digits ds)) (digitpart (c # r)))"

text \<open>
  A float is kept as the decimal number its literal denotes: sign, mantissa and power of
  ten, with the mantissa free of trailing zeros (so equal numbers are equal terms), or an
  infinity, or not-a-number. Python rounds that number to the nearest binary64 value and
  \<^verbatim>\<open>mathutils.Vector\<close> to binary32; this rounding is outside the model, which is exact on
  the numbers that need none (the integers and short decimals of the statements below).
\<close>

datatype pyfloat =
    Dec bool nat int   \<comment> \<open>negative?, mantissa \<open>m\<close>, exponent \<open>e\<close>: the number \<open>\<plusminus> m * 10 ^ e\<close>\<close>
  | Infty bool         \<comment> \<open>negative?\<close>
  | NaN

definition mk_dec :: "bool \<Rightarrow> string \<Rightarrow> int \<Rightarrow> pyfloat" where
  \<comment> \<open>the decimal with digit string \<open>ds\<close> times \<open>10 ^ e\<close>, trailing zeros moved to the exponent\<close>
  "mk_dec neg ds e =
     (let sig = dropWhile (\<lambda>c. c = CHR ''0'') ds;
          tz = length (takeWhile (\<lambda>c. c = CHR ''0'') (rev sig))
      in if sig = [] then Dec neg 0 0
         else Dec neg (nat_of_digits (take (length sig - tz) sig)) (e + int tz))"

definition float_mantissa :: "string \<Rightarrow> (string \<times> nat) option" where
  \<comment> \<open>\<^verbatim>\<open>[digitpart] "." digitpart | digitpart ["."]\<close>: all digits, and how many follow the point\<close>
  "float_mantissa m =
     (let ip = takeWhile (\<lambda>c. c \<noteq> CHR ''.'') m;
          rest = dropWhile (\<lambda>c. c \<noteq> CHR ''.'') m
      in case rest of
           [] \<Rightarrow> map_option (\<lambda>ds. (ds, 0)) (digitpart ip)
         | _ # fp \<Rightarrow>
             if fp = [] then map_option (\<lambda>ds. (ds, 0)) (digitpart ip)
             else if ip = [] then map_option (\<lambda>fs. (fs, length fs)) (digitpart fp)
             else (case (digitpart ip, digitpart fp) of
                     (Some ds, Some fs) \<Rightarrow> Some (ds @ fs, length fs)
                   | _ \<Rightarrow> None))"

definition float_exponent :: "string \<Rightarrow> int option" where
  \<comment> \<open>what follows the \<^verbatim>\<open>e\<close>: \<^verbatim>\<open>[sign] digitpart\<close>\<close>
  "float_exponent x =
     (case x of
        [] \<Rightarrow> None
      | c # r \<Rightarrow>
          if c = CHR ''-'' then map_option (\<lambda>ds. - int (nat_of_digits ds)) (digitpart r)
          else if c = CHR ''+'' then map_option (\<lambda>ds. int (nat_of_digits ds)) (digitpart r)
          else map_option (\<lambda>ds. int (nat_of_digits ds)) (digitpart (c # r)))"

definition float_abs :: "bool \<Rightarrow> string \<Rightarrow> pyfloat option" where
  "float_abs neg s =
     (if lower s = ''inf'' \<or> lower s = ''infinity'' then Some (Infty neg)
      else if lower s = ''nan'' then Some NaN
      else
        let m = takeWhile (\<lambda>c. c \<noteq> CHR ''e'' \<and> c \<noteq> CHR ''E'') s;
            x = dropWhile (\<lambda>c. c \<noteq> CHR ''e'' \<and> c \<noteq> CHR ''E'') s;
            ex = (if x = [] then Some 0 else float_exponent (tl x))
        in case (float_mantissa m, ex) of
             (Some (ds, k), Some e) \<Rightarrow> Some (mk_dec neg ds (e - int k))
           | _ \<Rightarrow> None)"

definition py_float :: "string \<Rightarrow> pyfloat option" where
  \<comment> \<open>\<^verbatim>\<open>float(s)\<close>; \<open>None\<close> where Python raises ValueError.\<close>
  "py_float s =
     (case strip s of
        [] \<Rightarrow> None
      | c # r \<Rightarrow>
          if c = CHR ''-'' then float_abs True r
          else if c = CHR ''+'' then float_abs False r
          else float_abs False (c # r))"

fun nat_str :: "nat \<Rightarrow> string" where
  "nat_str n = (if n < 10 then [digit_char n] else nat_str (n div 10) @ [digit_char (n mod 10)])"

declare nat_str.simps [simp del]


definition exp_str :: "int \<Rightarrow> string" where
  \<comment> \<open>the exponent of the scientific form: a sign and at least two digits\<close>
  "exp_str x =
     (let a = nat_str (nat \<bar>x\<bar>)
      in (if x < 0 then CHR ''-'' else CHR ''+'') # (if length a < 2 then CHR ''0'' # a else a))"

definition float_str :: "pyfloat \<Rightarrow> string" where
  \<comment> \<open>\<^verbatim>\<open>str(f)\<close>: positional when the decimal point falls within \<open>-4 < decpt \<le> 16\<close>,
      scientific otherwise\<close>
  "float_str f =
     (case f of
        NaN \<Rightarrow> ''nan''
      | Infty neg \<Rightarrow> (if neg then ''-inf'' else ''inf'')
      | Dec neg m e \<Rightarrow>
          (if neg then ''-'' else '''') @
          (if m = 0 then ''0.0''
           else
             let ds = nat_str m; n = int (length ds); decpt = n + e
             in if - 4 < decpt \<and> decpt \<le> 16 then
                  (if decpt \<le> 0 then ''0.'' @ replicate (nat (- decpt)) (CHR ''0'') @ ds
                   else if n \<le> decpt then ds @ replicate (nat (decpt - n)) (CHR ''0'') @ ''.0''
                   else take (nat decpt) ds @ ''.'' @ drop (nat decpt) ds)
                else
                  take 1 ds @ (if 1 < n then ''.'' @ drop 1 ds else '''')
                    @ ''e'' @ exp_str (decpt - 1)))"

section \<open>Python values\<close>

text \<open>
  The objects that a Document, a property or an XML attribute can hold. An instance of an
  \<^verbatim>\<open>ElementTree\<close> subclass carries its class: the class name, the class attribute
  \<^verbatim>\<open>tag_name\<close>, and the fields that the zero-argument constructor \<^verbatim>\<open>cls()\<close> sets (the concrete
  subclasses live outside this module, which only ever calls \<^verbatim>\<open>cls()\<close>). A subclass of
  \<^verbatim>\<open>ListProperty\<close> is its name and its \<^verbatim>\<open>list_type\<close>. A quaternion is kept as the
  axis and the angle it is built from, \<^verbatim>\<open>Quaternion((x, y, z), w)\<close>: its components are
  trigonometry on machine floats, which the model does not give.
\<close>

datatype pyval =
    VNone
  | VBool bool
  | VInt int
  | VFloat pyfloat
  | VStr string
  | VVector pyfloat pyfloat pyfloat
  | VQuaternion pyfloat pyfloat pyfloat pyfloat \<comment> \<open>axis \<open>x\<close>, \<open>y\<close>, \<open>z\<close> and angle\<close>
  | VList "pyval list"
  | AttributeProperty string pyval      \<comment> \<open>\<^verbatim>\<open>name\<close>, \<^verbatim>\<open>_value\<close>\<close>
  | ElementProperty eclass string pyval \<comment> \<open>the subclass, \<^verbatim>\<open>tag_name\<close>, \<^verbatim>\<open>value\<close>\<close>
  | ElementTree tclass "(string \<times> pyval) list" \<comment> \<open>the subclass, \<^verbatim>\<open>vars(self)\<close> in order\<close>
  | VMethod string                      \<comment> \<open>what a name bound on the class gives, by name\<close>
and eclass =
    TextProperty
  | VectorProperty
  | QuaternionProperty
  | ValueProperty
  | VerticesProperty
  | FlagsProperty
  | ListProperty string tclass          \<comment> \<open>class name, \<^verbatim>\<open>list_type\<close>\<close>
and tclass =
    TClass string string "(string \<times> pyval) list" \<comment> \<open>class name, \<^verbatim>\<open>tag_name\<close>, fields of \<^verbatim>\<open>cls()\<close>\<close>

datatype error =
    ValueError string        \<comment> \<open>raised by \<^verbatim>\<open>read_value_error\<close>, with its message\<close>
  | FloatValueError string   \<comment> \<open>the ValueError of \<^verbatim>\<open>float()\<close>, with the text it rejected\<close>
  | TypeError
  | ReturnedTypeError        \<comment> \<open>a TypeError object handed back by \<^verbatim>\<open>return\<close>, not raised\<close>
  | AttributeError string    \<comment> \<open>with the name of the attribute that is missing\<close>
  | Unrendered               \<comment> \<open>no exception, but a value the model does not give: \<^verbatim>\<open>str()\<close> of a
                                 compound object, a component of a quaternion\<close>

fun truthy :: "pyval \<Rightarrow> bool" where
  \<comment> \<open>\<^verbatim>\<open>bool(v)\<close>: vectors have a positive length, the classes of this module define
      neither \<^verbatim>\<open>__bool__\<close> nor \<^verbatim>\<open>__len__\<close>\<close>
  "truthy VNone = False"
| "truthy (VBool b) = b"
| "truthy (VInt i) = (i \<noteq> 0)"
| "truthy (VFloat f) = (case f of Dec _ m _ \<Rightarrow> m \<noteq> 0 | _ \<Rightarrow> True)"
| "truthy (VStr s) = (s \<noteq> [])"
| "truthy (VVector _ _ _) = True"
| "truthy (VQuaternion _ _ _ _) = True"
| "truthy (VList xs) = (xs \<noteq> [])"
| "truthy (AttributeProperty _ _) = True"
| "truthy (ElementProperty _ _ _) = True"
| "truthy (ElementTree _ _) = True"
| "truthy (VMethod _) = True"


section \<open>Value coercion\<close>

text \<open>
  \<^verbatim>\<open>
  def get_str_type(value: str):
      if isinstance(value, str):
          if value.lower() == 'true' or value.lower() == 'false':
              return bool(value)
          try: return int(value)
          except: pass
          try: return float(value)
          except: pass
      return value
  \<close>
  \<^verbatim>\<open>bool(value)\<close> is the truth value of the string, that is, whether it is non-empty.
\<close>

fun get_str_type :: "pyval \<Rightarrow> pyval" where
  "get_str_type (VStr s) =
     (if lower s = ''true'' \<or> lower s = ''false'' then VBool (truthy (VStr s))
      else (case py_int s of
              Some i \<Rightarrow> VInt i
            | None \<Rightarrow>
                (case py_float s of
                   Some f \<Rightarrow> VFloat f
                 | None \<Rightarrow> VStr s)))"
| "get_str_type v = v"

section \<open>XML elements\<close>

text \<open>
  An \<^verbatim>\<open>xml.etree.ElementTree.Element\<close>: tag, attribute dictionary (insertion-ordered, keys
  unique; \<^verbatim>\<open>set\<close> is \<^const>\<open>AList.update\<close>, \<^verbatim>\<open>get\<close> is \<^const>\<open>map_of\<close>), text, tail and
  children. The constructor does not check what an attribute holds, so the values are
  Python values; a parsed file has strings only. Elements are trees: no element occurs
  twice.
\<close>

datatype element =
  Element (tag: string) (attrib: "(string \<times> pyval) list") (etext: "string option")
    (etail: "string option") (children: "element list")

definition find :: "element \<Rightarrow> string \<Rightarrow> element option" where
  \<comment> \<open>\<^verbatim>\<open>element.find(name)\<close> for a plain tag name: the first child with that tag\<close>
  "find e name = List.find (\<lambda>c. tag c = name) (children e)"

definition findall :: "element \<Rightarrow> string \<Rightarrow> element list" where
  "findall e name = filter (\<lambda>c. tag c = name) (children e)"



section \<open>Errors and the base classes\<close>

definition read_value_error :: "string \<Rightarrow> element \<Rightarrow> error" where
  \<comment> \<open>\<^verbatim>\<open>raise ValueError(f"Invalid XML element '<{element.tag} />' for type '{cls.__name__}'!")\<close>\<close>
  "read_value_error cls_name element =
     ValueError (''Invalid XML element '' @ [CHR 0x27] @ ''<'' @ tag element @ '' />'' @ [CHR 0x27]
                 @ '' for type '' @ [CHR 0x27] @ cls_name @ [CHR 0x27] @ ''!'')"

definition bind :: "error + 'a \<Rightarrow> ('a \<Rightarrow> error + 'b) \<Rightarrow> error + 'b" where
  \<comment> \<open>sequencing: an exception of the first step is the exception of the whole\<close>
  "bind m f = (case m of Inl err \<Rightarrow> Inl err | Inr x \<Rightarrow> f x)"

datatype pytype = Tint | Tstr | Tbool | Tfloat | Tlist | TVector | TQuaternion

fun instance_of :: "pyval \<Rightarrow> pytype \<Rightarrow> bool" where
  \<comment> \<open>\<^verbatim>\<open>isinstance(v, t)\<close> for one type; \<^verbatim>\<open>bool\<close> is a subclass of \<^verbatim>\<open>int\<close>\<close>
  "instance_of (VBool _) t = (t = Tbool \<or> t = Tint)"
| "instance_of (VInt _) t = (t = Tint)"
| "instance_of (VFloat _) t = (t = Tfloat)"
| "instance_of (VStr _) t = (t = Tstr)"
| "instance_of (VList _) t = (t = Tlist)"
| "instance_of (VVector _ _ _) t = (t = TVector)"
| "instance_of (VQuaternion _ _ _ _) t = (t = TQuaternion)"
| "instance_of _ t = False"

definition isinstance :: "pyval \<Rightarrow> pytype list \<Rightarrow> bool" where
  "isinstance v ts = (\<exists>t \<in> set ts. instance_of v t)"

fun value_types :: "eclass \<Rightarrow> pytype list" where
  "value_types TextProperty = [Tstr]"
| "value_types VectorProperty = [TVector]"
| "value_types QuaternionProperty = [TQuaternion]"
| "value_types ValueProperty = [Tint, Tstr, Tbool, Tfloat]"
| "value_types VerticesProperty = [Tlist]"
| "value_types FlagsProperty = [Tlist]"
| "value_types (ListProperty _ _) = [Tlist]"

text \<open>
  \<^verbatim>\<open>
  def __init__(self, tag_name: str, value: value_types):
      super().__init__()
      self.tag_name = tag_name
      if value and not isinstance(value, self.value_types):
          raise TypeError(...)
      self.value = value
  \<close>
\<close>

definition ElementProperty_init :: "eclass \<Rightarrow> string \<Rightarrow> pyval \<Rightarrow> error + pyval" where
  "ElementProperty_init cls tag_name value =
     (if truthy value \<and> \<not> isinstance value (value_types cls) then Inl TypeError
      else Inr (ElementProperty cls tag_name value))"

definition py_or :: "pyval \<Rightarrow> pyval \<Rightarrow> pyval" where
  \<comment> \<open>\<^verbatim>\<open>a or b\<close>\<close>
  "py_or a b = (if truthy a then a else b)"

definition zero :: pyfloat where
  "zero = Dec False 0 0"

fun new_property :: "eclass \<Rightarrow> string \<Rightarrow> pyval \<Rightarrow> error + pyval" where
  \<comment> \<open>the constructors of the subclasses: each hands \<^verbatim>\<open>value or <default>\<close> to
      \<^verbatim>\<open>ElementProperty.__init__\<close>, but for \<^verbatim>\<open>ValueProperty\<close>, which hands over the value\<close>
  "new_property TextProperty tag_name value =
     ElementProperty_init TextProperty tag_name (py_or value (VStr []))"
| "new_property VectorProperty tag_name value =
     ElementProperty_init VectorProperty tag_name (py_or value (VVector zero zero zero))"
| "new_property QuaternionProperty tag_name value =
     ElementProperty_init QuaternionProperty tag_name
       (py_or value (VQuaternion zero zero zero (Dec False 1 0)))"
| "new_property ValueProperty tag_name value =
     ElementProperty_init ValueProperty tag_name value"
| "new_property cls tag_name value =
     ElementProperty_init cls tag_name (py_or value (VList []))"

fun float :: "pyval \<Rightarrow> error + pyfloat" where
  \<comment> \<open>\<^verbatim>\<open>float(v)\<close>\<close>
  "float (VStr s) = (case py_float s of Some f \<Rightarrow> Inr f | None \<Rightarrow> Inl (FloatValueError s))"
| "float (VFloat f) = Inr f"
| "float (VInt i) = Inr (mk_dec (i < 0) (nat_str (nat \<bar>i\<bar>)) 0)"
| "float (VBool b) = Inr (if b then Dec False 1 0 else zero)"
| "float _ = Inl TypeError"

fun iter :: "pyval \<Rightarrow> error + pyval list" where
  \<comment> \<open>what \<^verbatim>\<open>for item in v\<close> runs over; TypeError where \<open>v\<close> is not iterable\<close>
  "iter (VList xs) = Inr xs"
| "iter (VStr s) = Inr (map (\<lambda>c. VStr [c]) s)"
| "iter (VVector x y z) = Inr [VFloat x, VFloat y, VFloat z]"
| "iter (VQuaternion x y z w) = Inl Unrendered"
| "iter _ = Inl TypeError"

section \<open>The property variants\<close>

subsection \<open>TextProperty\<close>

text \<open>
  \<^verbatim>\<open>
  def from_xml(element): return TextProperty(element.tag, element.text)
  def to_xml(self):      return ET.Element(self.tag_name, text = self.value)
  \<close>
  A keyword argument of \<^verbatim>\<open>ET.Element\<close> is an attribute: \<^verbatim>\<open>to_xml\<close> makes an element with the
  attribute \<^verbatim>\<open>text\<close> and no text.
\<close>

definition TextProperty_from_xml :: "element \<Rightarrow> error + pyval" where
  "TextProperty_from_xml element =
     new_property TextProperty (tag element)
       (case etext element of None \<Rightarrow> VNone | Some s \<Rightarrow> VStr s)"


subsection \<open>VectorProperty\<close>

text \<open>
  \<^verbatim>\<open>
  def from_xml(element: ET.Element):
      if not all(x in element.attrib.keys() for x in ['x', 'y', 'z']):
          return VectorProperty.read_value_error(element)
      return VectorProperty(element.tag, Vector((float(element.get('x')),
                 float(element.get('y')), float(element.get('z')))))

  def to_xml(self):
      return ET.Element(self.tag_name, attrib={'x': str(self.value.x),
                 'y': str(self.value.y), 'z': str(self.value.z)})
  \<close>
\<close>

definition VectorProperty_from_xml :: "element \<Rightarrow> error + pyval" where
  "VectorProperty_from_xml element =
     (case (map_of (attrib element) ''x'', map_of (attrib element) ''y'',
            map_of (attrib element) ''z'') of
        (Some x, Some y, Some z) \<Rightarrow>
          bind (float x) (\<lambda>fx. bind (float y) (\<lambda>fy. bind (float z) (\<lambda>fz.
            new_property VectorProperty (tag element) (VVector fx fy fz))))
      | _ \<Rightarrow> Inl (read_value_error ''VectorProperty'' element))"

subsection \<open>QuaternionProperty\<close>

text \<open>
  \<^verbatim>\<open>
  def from_xml(element: ET.Element):
      if not all(x in element.attrib.keys() for x in ['x', 'y', 'z', 'w']):
          QuaternionProperty.read_value_error(element)
      return QuaternionProperty(element.tag, Quaternion((float(element.get('x')),
                 float(element.get('y')), float(element.get('z'))), float(element.get('w'))))

  def to_xml(self):
      return ET.Element(self.tag_name, attrib={'x': str(self.value.x),
                 'y': str(self.value.y), 'z': str(self.value.z), 'w': str(self.value.w)})
  \<close>
  What is read as \<^verbatim>\<open>x\<close>, \<^verbatim>\<open>y\<close>, \<^verbatim>\<open>z\<close> is taken as an axis and \<^verbatim>\<open>w\<close> as an angle; what is written
  are the components.
\<close>

definition QuaternionProperty_from_xml :: "element \<Rightarrow> error + pyval" where
  "QuaternionProperty_from_xml element =
     (case (map_of (attrib element) ''x'', map_of (attrib element) ''y'',
            map_of (attrib element) ''z'', map_of (attrib element) ''w'') of
        (Some x, Some y, Some z, Some w) \<Rightarrow>
          bind (float x) (\<lambda>fx. bind (float y) (\<lambda>fy. bind (float z) (\<lambda>fz. bind (float w) (\<lambda>fw.
            new_property QuaternionProperty (tag element) (VQuaternion fx fy fz fw)))))
      | _ \<Rightarrow> Inl (read_value_error ''QuaternionProperty'' element))"

subsection \<open>ValueProperty\<close>

text \<open>
  \<^verbatim>\<open>
  def from_xml(element: ET.Element):
      if not 'value' in element.attrib:
          ValueError.read_value_error(element)
      return ValueProperty(element.tag, get_str_type(element.get('value')))

  def to_xml(self):
      return ET.Element(self.tag_name, attrib={'value': str(self.value)})
  \<close>
  The builtin class \<^verbatim>\<open>ValueError\<close> has no attribute \<^verbatim>\<open>read_value_error\<close>: looking it up
  raises AttributeError before anything is called.
\<close>

definition ValueProperty_from_xml :: "element \<Rightarrow> error + pyval" where
  "ValueProperty_from_xml element =
     (case map_of (attrib element) ''value'' of
        None \<Rightarrow>
          Inl (AttributeError ''read_value_error'')
      | Some v \<Rightarrow> new_property ValueProperty (tag element) (get_str_type v))"


subsection \<open>VerticesProperty\<close>

text \<open>
  \<^verbatim>\<open>
  def from_xml(element: ET.Element):
      new = VerticesProperty(element.tag, [])
      text = element.text.strip().split('\n')
      if len(text) > 0:
          for line in text:
              coords = line.strip().split(',')
              if not len(coords) == 3:
                  return VerticesProperty.read_value_error(element)
              new.value.append(Vector((float(coords[0]), float(coords[1]), float(coords[2]))))
      return new
  \<close>
\<close>

fun read_lines :: "element \<Rightarrow> string list \<Rightarrow> pyval list \<Rightarrow> error + pyval list" where
  \<comment> \<open>the loop over the lines; the third argument is \<^verbatim>\<open>new.value\<close> so far\<close>
  "read_lines element [] acc = Inr acc"
| "read_lines element (line # rest) acc =
     (case split (CHR '','') (strip line) of
        [c0, c1, c2] \<Rightarrow>
          bind (float (VStr c0)) (\<lambda>x. bind (float (VStr c1)) (\<lambda>y. bind (float (VStr c2)) (\<lambda>z.
            read_lines element rest (acc @ [VVector x y z]))))
      | _ \<Rightarrow> Inl (read_value_error ''VerticesProperty'' element))"

definition VerticesProperty_from_xml :: "element \<Rightarrow> error + pyval" where
  "VerticesProperty_from_xml element =
     bind (new_property VerticesProperty (tag element) (VList [])) (\<lambda>new.
       case etext element of
         None \<Rightarrow>
           Inl (AttributeError ''strip'')
       | Some t \<Rightarrow>
           bind (read_lines element (split NL (strip t)) [])
             (\<lambda>vs. Inr (ElementProperty VerticesProperty (tag element) (VList vs))))"

text \<open>
  \<^verbatim>\<open>
  def to_xml(self):
      element = ET.Element(self.tag_name)
      element.text = '\n'
      for vertex in self.value:
          if not isinstance(vertex, Vector):
              raise TypeError(...)
          for index, component in enumerate(vertex):
              element.text += str(component)
              if index < len(vertex) - 1:
                  element.text += ', '
          element.text += '\n'
      return element
  \<close>
\<close>

fun write_components :: "pyfloat list \<Rightarrow> nat \<Rightarrow> nat \<Rightarrow> string \<Rightarrow> string" where
  \<comment> \<open>the inner loop: components left, \<^verbatim>\<open>index\<close>, \<^verbatim>\<open>len(vertex)\<close>, the text so far\<close>
  "write_components [] index n txt = txt"
| "write_components (c # cs) index n txt =
     write_components cs (Suc index) n
       (txt @ float_str c @ (if index < n - 1 then '', '' else []))"

fun write_vertices :: "pyval list \<Rightarrow> string \<Rightarrow> error + string" where
  "write_vertices [] txt = Inr txt"
| "write_vertices (VVector x y z # rest) txt =
     write_vertices rest (write_components [x, y, z] 0 3 txt @ [NL])"
| "write_vertices (_ # rest) txt = Inl TypeError"

definition VerticesProperty_to_xml :: "string \<Rightarrow> pyval \<Rightarrow> error + element" where
  "VerticesProperty_to_xml tag_name value =
     bind (iter value) (\<lambda>vs. bind (write_vertices vs [NL]) (\<lambda>txt.
       Inr (Element tag_name [] (Some txt) None [])))"

subsection \<open>FlagsProperty\<close>

text \<open>
  \<^verbatim>\<open>
  def from_xml(element: ET.Element):
      new = FlagsProperty(element.tag, [])
      if element.text and len(element.text.strip()) > 0:
          text = element.text.replace(' ', '').split(',')
          if not len(text) > 0:
              return FlagsProperty.read_value_error(element)
          for flag in text:
              new.value.append(flag)
      return new

  def to_xml(self):
      element = ET.Element(self.tag_name)
      for item in self.value:
          if not isinstance(item, str):
              return TypeError('FlagsProperty can only contain str objects!')
      if len(self.value) > 0:
          element.text = ', '.join(self.value)
      return element
  \<close>
\<close>

definition FlagsProperty_from_xml :: "element \<Rightarrow> error + pyval" where
  "FlagsProperty_from_xml element =
     bind (new_property FlagsProperty (tag element) (VList [])) (\<lambda>new.
       case etext element of
         None \<Rightarrow> Inr new
       | Some t \<Rightarrow>
           if t \<noteq> [] \<and> 0 < length (strip t) then
             (let text = split (CHR '','') (filter (\<lambda>c. c \<noteq> CHR '' '') t)
              in if \<not> 0 < length text then Inl (read_value_error ''FlagsProperty'' element)
                 else Inr (ElementProperty FlagsProperty (tag element) (VList (map VStr text))))
           else Inr new)"



section \<open>Documents: the class \<^verbatim>\<open>ElementTree\<close>\<close>

subsection \<open>Attribute access and assignment\<close>

text \<open>
  An instance is its class and its \<^verbatim>\<open>vars()\<close>, a dictionary in insertion order. Assignment
  to a key is \<^const>\<open>AList.update\<close>: in place when the key is there, at the end otherwise.
  The objects a Document holds belong to it alone (nothing else refers to them), so
  changing an object where it sits is storing the changed object. The subclasses bind
  \<^verbatim>\<open>tag_name\<close> on the class, and no field is called \<^verbatim>\<open>tag_name\<close>.
  \<^verbatim>\<open>
  def __getattribute__(self, key: str, onlyValue: bool=True):
      obj = None
      try:
          obj = object.__getattribute__(self, key)
          if isinstance(obj, (ElementProperty, AttributeProperty)) and onlyValue:
              return obj.value
          else:
              return obj
      except AttributeError:
          return None

  def __setattr__(self, name: str, value) -> None:
      obj = self.__getattribute__(name, False)
      if obj and isinstance(obj, (ElementProperty, AttributeProperty)) \
             and not isinstance(value, (ElementProperty, AttributeProperty)):
          obj.value = value
          super().__setattr__(name, obj)
      else:
          super().__setattr__(name, value)
  \<close>
\<close>

fun tag_name :: "tclass \<Rightarrow> string" where
  "tag_name (TClass n t d) = t"

fun defaults :: "tclass \<Rightarrow> (string \<times> pyval) list" where
  \<comment> \<open>\<^verbatim>\<open>vars(cls())\<close>\<close>
  "defaults (TClass n t d) = d"

definition methods :: "string list" where
  \<comment> \<open>the names an instance finds on its class beside \<^verbatim>\<open>tag_name\<close>: what this module binds
      on \<^verbatim>\<open>ElementTree\<close> and on its base \<^verbatim>\<open>Element\<close>, and what every instance of a class
      derived from \<^verbatim>\<open>ABC\<close> has (CPython 3.11); a subclass is taken to add none\<close>
  "methods = [''read_value_error'', ''from_xml'', ''to_xml'', ''from_xml_file'', ''write_xml'',
              ''__getattribute__'', ''__setattr__'', ''get_element'',
              ''__abstractmethods__'', ''__class__'', ''__delattr__'', ''__dict__'', ''__dir__'',
              ''__doc__'', ''__eq__'', ''__format__'', ''__ge__'', ''__getstate__'', ''__gt__'',
              ''__hash__'', ''__init__'', ''__init_subclass__'', ''__le__'', ''__lt__'',
              ''__module__'', ''__ne__'', ''__new__'', ''__reduce__'', ''__reduce_ex__'',
              ''__repr__'', ''__sizeof__'', ''__slots__'', ''__str__'', ''__subclasshook__'',
              ''__weakref__'', ''_abc_impl'']"

definition object_getattribute :: "tclass \<Rightarrow> (string \<times> pyval) list \<Rightarrow> string \<Rightarrow> pyval option" where
  \<comment> \<open>\<^verbatim>\<open>object.__getattribute__(self, key)\<close>: the instance dictionary, then the class;
      \<open>None\<close> where it raises AttributeError\<close>
  "object_getattribute cls fields key =
     (case map_of fields key of
        Some obj \<Rightarrow> Some obj
      | None \<Rightarrow>
          if key = ''tag_name'' then Some (VStr (tag_name cls))
          else if key \<in> set methods then Some (VMethod key)
          else None)"

fun is_property :: "pyval \<Rightarrow> bool" where
  \<comment> \<open>\<^verbatim>\<open>isinstance(obj, (ElementProperty, AttributeProperty))\<close>\<close>
  "is_property (AttributeProperty _ _) = True"
| "is_property (ElementProperty _ _ _) = True"
| "is_property _ = False"

fun is_Element :: "pyval \<Rightarrow> bool" where
  \<comment> \<open>\<^verbatim>\<open>isinstance(obj, Element)\<close>\<close>
  "is_Element (ElementProperty _ _ _) = True"
| "is_Element (ElementTree _ _) = True"
| "is_Element _ = False"

fun property_value :: "pyval \<Rightarrow> pyval" where
  \<comment> \<open>\<^verbatim>\<open>obj.value\<close>; on an \<^verbatim>\<open>AttributeProperty\<close> the getter runs \<^verbatim>\<open>get_str_type(self._value)\<close>\<close>
  "property_value (AttributeProperty name v) = get_str_type v"
| "property_value (ElementProperty cls t v) = v"
| "property_value obj = obj"

fun set_value :: "pyval \<Rightarrow> pyval \<Rightarrow> pyval" where
  \<comment> \<open>the object after \<^verbatim>\<open>obj.value = value\<close>\<close>
  "set_value (AttributeProperty name _) value = AttributeProperty name value"
| "set_value (ElementProperty cls t _) value = ElementProperty cls t value"
| "set_value obj value = obj"

definition getattribute :: "tclass \<Rightarrow> (string \<times> pyval) list \<Rightarrow> string \<Rightarrow> bool \<Rightarrow> pyval" where
  "getattribute cls fields key onlyValue =
     (case object_getattribute cls fields key of
        Some obj \<Rightarrow> if is_property obj \<and> onlyValue then property_value obj else obj
      | None \<Rightarrow> VNone)"

definition setattr :: "tclass \<Rightarrow> (string \<times> pyval) list \<Rightarrow> string \<Rightarrow> pyval \<Rightarrow> (string \<times> pyval) list" where
  \<comment> \<open>\<^verbatim>\<open>vars(self)\<close> after \<^verbatim>\<open>self.name = value\<close>\<close>
  "setattr cls fields name value =
     (let obj = getattribute cls fields name False
      in if truthy obj \<and> is_property obj \<and> \<not> is_property value
         then AList.update name (set_value obj value) fields
         else AList.update name value fields)"

definition get_element :: "tclass \<Rightarrow> (string \<times> pyval) list \<Rightarrow> string \<Rightarrow> pyval" where
  "get_element cls fields key =
     (case getattribute cls fields key False of
        ElementProperty c t v \<Rightarrow> ElementProperty c t v
      | _ \<Rightarrow> VNone)"

subsection \<open>Writing\<close>






subsection \<open>Reading\<close>

text \<open>
  \<^verbatim>\<open>
  def from_xml(cls: Element, element: ET.Element):       # ElementTree
      new = cls()
      for prop_name, obj_element in vars(new).items():
          if isinstance(obj_element, Element):
              child = element.find(obj_element.tag_name)
              if child != None and obj_element.tag_name == child.tag:
                  setattr(new, prop_name, type(obj_element).from_xml(child))
          elif isinstance(obj_element, AttributeProperty):
              if obj_element.name in element.attrib and new.tag_name == element.tag:
                  obj_element.value = element.get(obj_element.name)
      return new

  def from_xml(cls, element: ET.Element):                # ListProperty
      new = cls(element.tag)
      children = element.findall(new.list_type.tag_name)
      for child in children:
          new.value.append(new.list_type.from_xml(child))
      return new
  \<close>
  The loop of \<^verbatim>\<open>ElementTree.from_xml\<close> visits the fields of \<^verbatim>\<open>cls()\<close> in order and changes
  only the field it is at, so it runs over the fields still to visit beside the instance
  built so far. Every recursive call is on a child of the element.
\<close>

lemma size_find [termination_simp]:
  "find e name = Some c \<Longrightarrow> size c < size e"
proof -
  have "List.find P cs = Some c \<Longrightarrow> size c < Suc (size_list size cs)" for P cs
    by (induction cs) (auto split: if_splits)
  then show "find e name = Some c \<Longrightarrow> size c < size e"
    by (cases e) (fastforce simp: find_def)
qed

lemma size_findall [termination_simp]:
  "size_list size (findall e name) < size e"
proof -
  have "size_list size (filter P cs) < Suc (size_list size cs)" for P cs
    by (induction cs) auto
  then show ?thesis
    by (cases e) (simp add: findall_def)
qed

function ElementProperty_from_xml :: "eclass \<Rightarrow> element \<Rightarrow> error + pyval"
  and ElementTree_from_xml :: "tclass \<Rightarrow> element \<Rightarrow> error + pyval"
  and read_fields :: "tclass \<Rightarrow> element \<Rightarrow> (string \<times> pyval) list \<Rightarrow> (string \<times> pyval) list \<Rightarrow> error + pyval"
  and read_items :: "tclass \<Rightarrow> element list \<Rightarrow> pyval list \<Rightarrow> error + pyval list"
where
  "ElementProperty_from_xml TextProperty element = TextProperty_from_xml element"
| "ElementProperty_from_xml VectorProperty element = VectorProperty_from_xml element"
| "ElementProperty_from_xml QuaternionProperty element = QuaternionProperty_from_xml element"
| "ElementProperty_from_xml ValueProperty element = ValueProperty_from_xml element"
| "ElementProperty_from_xml VerticesProperty element = VerticesProperty_from_xml element"
| "ElementProperty_from_xml FlagsProperty element = FlagsProperty_from_xml element"
| "ElementProperty_from_xml (ListProperty n list_type) element =
     bind (new_property (ListProperty n list_type) (tag element) VNone) (\<lambda>new.
       bind (read_items list_type (findall element (tag_name list_type)) [])
         (\<lambda>items. Inr (ElementProperty (ListProperty n list_type) (tag element) (VList items))))"
| "ElementTree_from_xml cls element = read_fields cls element (defaults cls) (defaults cls)"
| "read_fields cls element [] new = Inr (ElementTree cls new)"
| "read_fields cls element ((prop_name, obj_element) # rest) new =
     (case obj_element of
        ElementProperty c t v \<Rightarrow>
          (case find element t of
             Some child \<Rightarrow>
               if t = tag child then
                 bind (ElementProperty_from_xml c child)
                   (\<lambda>p. read_fields cls element rest (setattr cls new prop_name p))
               else read_fields cls element rest new
           | None \<Rightarrow> read_fields cls element rest new)
      | ElementTree c fields \<Rightarrow>
          (case find element (tag_name c) of
             Some child \<Rightarrow>
               if tag_name c = tag child then
                 bind (ElementTree_from_xml c child)
                   (\<lambda>p. read_fields cls element rest (setattr cls new prop_name p))
               else read_fields cls element rest new
           | None \<Rightarrow> read_fields cls element rest new)
      | AttributeProperty name v \<Rightarrow>
          (case map_of (attrib element) name of
             Some a \<Rightarrow>
               if tag_name cls = tag element then
                 read_fields cls element rest
                   (AList.update prop_name (AttributeProperty name a) new)
               else read_fields cls element rest new
           | None \<Rightarrow> read_fields cls element rest new)
      | _ \<Rightarrow> read_fields cls element rest new)"
| "read_items list_type [] acc = Inr acc"
| "read_items list_type (child # rest) acc =
     bind (ElementTree_from_xml list_type child) (\<lambda>item. read_items list_type rest (acc @ [item]))"
  by pat_completeness auto

termination
  by (relation "measures
        [\<lambda>x. case x of
                Inl (Inl (c, e)) \<Rightarrow> size e
              | Inl (Inr (c, e)) \<Rightarrow> size e
              | Inr (Inl (c, e, fs, new)) \<Rightarrow> size e
              | Inr (Inr (c, es, acc)) \<Rightarrow> size_list size es,
         \<lambda>x. case x of
                Inl (Inl (c, e)) \<Rightarrow> 0
              | Inl (Inr (c, e)) \<Rightarrow> Suc (length (defaults c))
              | Inr (Inl (c, e, fs, new)) \<Rightarrow> length fs
              | Inr (Inr (c, es, acc)) \<Rightarrow> 0]")
     (auto simp: size_find size_findall)

section \<open>The pretty-printer\<close>

text \<open>
  \<^verbatim>\<open>
  def indent(elem: ET.Element, level=0):
      amount = "  "
      i = "\n" + level*amount
      if len(elem):
          if not elem.text or not elem.text.strip():
              elem.text = i + amount
          if not elem.tail or not elem.tail.strip():
              elem.tail = i
          for elem in elem:
              indent(elem, level+1)
          if not elem.tail or not elem.tail.strip():
              elem.tail = i
      else:
          if level and (not elem.tail or not elem.tail.strip()):
              elem.tail = i
          if elem.text and len(elem.text.strip()) > 0 and elem.text.find('\n') != -1:
              lines = elem.text.strip().split('\n')
              for index, line in enumerate(lines):
                  lines[index] = ((level + 1) * amount) + line
              elem.text = '\n' + '\n'.join(lines) + i
  \<close>
  The loop rebinds \<^verbatim>\<open>elem\<close>: after it, \<^verbatim>\<open>elem\<close> is the last child, and the test that follows
  the loop resets the tail of that child.
\<close>

definition blank :: "string option \<Rightarrow> bool" where
  \<comment> \<open>\<^verbatim>\<open>not s or not s.strip()\<close>\<close>
  "blank t = (case t of None \<Rightarrow> True | Some s \<Rightarrow> s = [] \<or> strip s = [])"

definition amount :: string where
  "amount = ''  ''"

definition times :: "nat \<Rightarrow> string \<Rightarrow> string" where
  \<comment> \<open>\<^verbatim>\<open>n * s\<close>\<close>
  "times n s = concat (replicate n s)"

definition set_tail_if_blank :: "string \<Rightarrow> element \<Rightarrow> element" where
  \<comment> \<open>\<^verbatim>\<open>if not elem.tail or not elem.tail.strip(): elem.tail = i\<close>\<close>
  "set_tail_if_blank i e =
     (if blank (etail e) then Element (tag e) (attrib e) (etext e) (Some i) (children e) else e)"

definition indent_text :: "nat \<Rightarrow> string option \<Rightarrow> string option" where
  \<comment> \<open>the text of a leaf after the pass\<close>
  "indent_text level tx =
     (case tx of
        None \<Rightarrow> None
      | Some t \<Rightarrow>
          if t \<noteq> [] \<and> 0 < length (strip t) \<and> NL \<in> set t then
            Some ([NL] @ join [NL] (map (\<lambda>line. times (level + 1) amount @ line) (split NL (strip t)))
                    @ [NL] @ times level amount)
          else Some t)"

fun indent :: "element \<Rightarrow> nat \<Rightarrow> element" where
  "indent (Element tg at txt tail cs) level =
     (let i = [NL] @ times level amount
      in if cs \<noteq> [] then
           (let cs' = map (\<lambda>c. indent c (level + 1)) cs
            in Element tg at (if blank txt then Some (i @ amount) else txt)
                 (if blank tail then Some i else tail)
                 (butlast cs' @ [set_tail_if_blank i (last cs')]))
         else
           Element tg at (indent_text level txt)
             (if level \<noteq> 0 \<and> blank tail then Some i else tail) [])"

text \<open>
  A tree whose leaves carry at most one line of text: the text of every childless element,
  once stripped, has no newline.
\<close>

fun single_line_leaves :: "element \<Rightarrow> bool" where
  "single_line_leaves (Element tg at txt tail cs) =
     (if cs \<noteq> [] then list_all single_line_leaves cs
      else (case txt of None \<Rightarrow> True | Some t \<Rightarrow> NL \<notin> set (strip t)))"

section \<open>The fields of a Document that is written and read\<close>





fun attribute_names :: "(string \<times> pyval) list \<Rightarrow> string list" where
  "attribute_names [] = []"
| "attribute_names ((k, AttributeProperty n v) # fields) = n # attribute_names fields"
| "attribute_names ((k, obj) # fields) = attribute_names fields"




section \<open>Value coercion: the boolean branch\<close>

text \<open>
  C1. Coercion tests for a boolean literal of any casing first, and the specification has every
  casing of \<^verbatim>\<open>false\<close> coerce to the boolean false. The code returns \<^verbatim>\<open>bool(value)\<close>, the
  truth value of a non-empty string: the literal \<^verbatim>\<open>false\<close>, in either casing below, coerces
  to the boolean true.
\<close>

theorem get_str_type_false:
  "get_str_type (VStr ''false'') = VBool True \<and> get_str_type (VStr ''False'') = VBool True"
  by code_simp

section \<open>ValueProperty without its attribute\<close>

text \<open>
  C5. Reading an element that lacks the attribute \<^verbatim>\<open>value\<close> is specified to fail with the
  malformed-element error that names the tag. On such an element the code raises the
  AttributeError of the lookup \<^verbatim>\<open>ValueError.read_value_error\<close>, which is not the error
  \<^verbatim>\<open>read_value_error\<close> builds.
\<close>

theorem ValueProperty_from_xml_no_value:
  "ValueProperty_from_xml (Element ''Count'' [] None None []) = Inl (AttributeError ''read_value_error'')
   \<and> ValueProperty_from_xml (Element ''Count'' [] None None [])
       \<noteq> Inl (read_value_error ''ValueProperty'' (Element ''Count'' [] None None []))"
  by (simp add: ValueProperty_from_xml_def read_value_error_def)

section \<open>VerticesProperty on the two-line example\<close>

text \<open>
  C6. Reading the text \<^verbatim>\<open>"1, 2, 3\n4, 5, 6\n"\<close> yields the two vectors (1,2,3) and (4,5,6);
  writing them yields one \<^verbatim>\<open>x, y, z\<close> line per vertex between newlines, and that text reads
  back as the same two vectors.
\<close>

theorem VerticesProperty_example:
  "VerticesProperty_from_xml (Element t [] (Some (''1, 2, 3'' @ [NL] @ ''4, 5, 6'' @ [NL])) None [])
     = Inr (ElementProperty VerticesProperty t
             (VList [VVector (Dec False 1 0) (Dec False 2 0) (Dec False 3 0),
                     VVector (Dec False 4 0) (Dec False 5 0) (Dec False 6 0)]))
   \<and> VerticesProperty_to_xml t
        (VList [VVector (Dec False 1 0) (Dec False 2 0) (Dec False 3 0),
                VVector (Dec False 4 0) (Dec False 5 0) (Dec False 6 0)])
     = Inr (Element t [] (Some ([NL] @ ''1.0, 2.0, 3.0'' @ [NL] @ ''4.0, 5.0, 6.0'' @ [NL])) None [])
   \<and> VerticesProperty_from_xml
        (Element t [] (Some ([NL] @ ''1.0, 2.0, 3.0'' @ [NL] @ ''4.0, 5.0, 6.0'' @ [NL])) None [])
     = Inr (ElementProperty VerticesProperty t
             (VList [VVector (Dec False 1 0) (Dec False 2 0) (Dec False 3 0),
                     VVector (Dec False 4 0) (Dec False 5 0) (Dec False 6 0)]))"
  by code_simp

section \<open>Attribute access and assignment on a Document\<close>

lemma map_fst_update:
  "map fst (AList.update k v al) = (if k \<in> fst ` set al then map fst al else map fst al @ [k])"
  by (induction al) auto

text \<open>
  C7. On a field that holds a property wrapper, assigning a plain value keeps the wrapper
  where it is (same class, same tag or name, same place in the instance) and replaces only
  the value it stores; every other field is untouched; reading the field gives a plain
  value and not the wrapper: the assigned value on an element property and, on an attribute
  property, what the assigned value is coerced to.
\<close>

theorem setattr_plain_value:
  assumes "map_of fields name = Some w" and "is_property w" and "\<not> is_property v"
  shows "map_of (setattr cls fields name v) name = Some (set_value w v)
    \<and> (\<forall>k. k \<noteq> name \<longrightarrow> map_of (setattr cls fields name v) k = map_of fields k)
    \<and> map fst (setattr cls fields name v) = map fst fields
    \<and> ((\<exists>n x. w = AttributeProperty n x \<and> set_value w v = AttributeProperty n v
              \<and> getattribute cls (setattr cls fields name v) name True = get_str_type v)
       \<or> (\<exists>c t x. w = ElementProperty c t x \<and> set_value w v = ElementProperty c t v
              \<and> getattribute cls (setattr cls fields name v) name True = v))
    \<and> \<not> is_property (getattribute cls (setattr cls fields name v) name True)
    \<and> getattribute cls fields name True = property_value w"
proof -
  have obj: "getattribute cls fields name False = w"
    using assms by (simp add: getattribute_def object_getattribute_def)
  have tr: "truthy w" using assms(2) by (cases w) auto
  have sa: "setattr cls fields name v = AList.update name (set_value w v) fields"
    using assms obj tr by (simp add: setattr_def)
  have key: "name \<in> fst ` set fields"
    using assms(1) by (force dest: map_of_SomeD)
  have gs: "\<not> is_property (get_str_type v)"
    using assms(3) by (cases v) (auto split: option.splits)
  show ?thesis
    using assms key gs
    by (cases w) (auto simp: sa update_conv' map_fst_update getattribute_def object_getattribute_def)
qed

theorem setattr_plain_value_witness:
  "map_of [(''name'', AttributeProperty ''name'' (VStr ''a'')),
           (''pos'', ElementProperty VectorProperty ''Position'' (VVector zero zero zero))] ''pos''
     = Some (ElementProperty VectorProperty ''Position'' (VVector zero zero zero))
   \<and> map_of (setattr (TClass ''Box'' ''Box'' [])
        [(''name'', AttributeProperty ''name'' (VStr ''a'')),
         (''pos'', ElementProperty VectorProperty ''Position'' (VVector zero zero zero))]
        ''pos'' (VVector (Dec False 1 0) zero zero)) ''pos''
     = Some (ElementProperty VectorProperty ''Position'' (VVector (Dec False 1 0) zero zero))"
  using setattr_plain_value
    [of "[(''name'', AttributeProperty ''name'' (VStr ''a'')),
          (''pos'', ElementProperty VectorProperty ''Position'' (VVector zero zero zero))]"
        "''pos''" "ElementProperty VectorProperty ''Position'' (VVector zero zero zero)"
        "VVector (Dec False 1 0) zero zero" "TClass ''Box'' ''Box'' []"]
  by simp

text \<open>
  The getter of an attribute property coerces: after the text \<^verbatim>\<open>12\<close> is assigned to the
  field, reading the field gives the number 12.
\<close>

theorem setattr_plain_value_counterexample:
  "getattribute (TClass ''Box'' ''Box'' [(''name'', AttributeProperty ''name'' (VStr ''unnamed''))])
     (setattr (TClass ''Box'' ''Box'' [(''name'', AttributeProperty ''name'' (VStr ''unnamed''))])
        [(''name'', AttributeProperty ''name'' (VStr ''unnamed''))] ''name'' (VStr ''12''))
     ''name'' True = VInt 12
   \<and> getattribute (TClass ''Box'' ''Box'' [(''name'', AttributeProperty ''name'' (VStr ''unnamed''))])
     (setattr (TClass ''Box'' ''Box'' [(''name'', AttributeProperty ''name'' (VStr ''unnamed''))])
        [(''name'', AttributeProperty ''name'' (VStr ''unnamed''))] ''name'' (VStr ''12''))
     ''name'' True \<noteq> VStr ''12''"
  by code_simp

text \<open>
  C8. Reading an attribute that neither the instance nor its class defines returns None:
  the AttributeError of the lookup is caught.
\<close>

theorem getattribute_undefined:
  "key \<notin> fst ` set fields \<Longrightarrow> key \<noteq> ''tag_name'' \<Longrightarrow> key \<notin> set methods \<Longrightarrow>
   getattribute cls fields key onlyValue = VNone"
  by (simp add: getattribute_def object_getattribute_def map_of_eq_None_iff [THEN iffD2])

theorem getattribute_undefined_witness:
  "''colour'' \<notin> fst ` set [(''name'', AttributeProperty ''name'' (VStr ''a''))]
   \<and> ''colour'' \<noteq> ''tag_name'' \<and> ''colour'' \<notin> set methods
   \<and> getattribute (TClass ''Box'' ''Box'' []) [(''name'', AttributeProperty ''name'' (VStr ''a''))]
        ''colour'' True = VNone"
proof -
  have h: "''colour'' \<notin> fst ` set [(''name'', AttributeProperty ''name'' (VStr ''a''))]"
    "''colour'' \<noteq> ''tag_name''" "''colour'' \<notin> set methods"
    by (simp_all add: methods_def)
  show ?thesis
    using h getattribute_undefined [OF h, of "TClass ''Box'' ''Box'' []" True] by simp
qed

section \<open>Construction of an element property\<close>

text \<open>
  C9. \<^verbatim>\<open>ElementProperty.__init__\<close> raises exactly when the value is truthy and not an instance
  of the declared value types, and what it raises is TypeError; False, 0, the empty string,
  the empty list and None are accepted whatever the variant declares, so construction does
  not establish the declared value types: a \<^verbatim>\<open>ValueProperty\<close>, whose constructor hands the
  value over as it is, is built holding None, which is none of int, str, bool and float.
\<close>

theorem ElementProperty_init_TypeError:
  "((\<exists>err. ElementProperty_init cls t v = Inl err) \<longleftrightarrow> truthy v \<and> \<not> isinstance v (value_types cls))
   \<and> (ElementProperty_init cls t v = Inl err \<longrightarrow> err = TypeError)
   \<and> (\<forall>w \<in> set [VBool False, VInt 0, VStr [], VList [], VNone].
         ElementProperty_init cls t w = Inr (ElementProperty cls t w))
   \<and> new_property ValueProperty t VNone = Inr (ElementProperty ValueProperty t VNone)
   \<and> \<not> isinstance VNone (value_types ValueProperty)"
  by (auto simp: ElementProperty_init_def isinstance_def)

theorem ElementProperty_init_TypeError_witness:
  "ElementProperty_init ValueProperty ''Count'' (VList [VInt 1]) = Inl TypeError
   \<and> VNone \<in> set [VBool False, VInt 0, VStr [], VList [], VNone]
   \<and> ElementProperty_init ValueProperty ''Count'' VNone
       = Inr (ElementProperty ValueProperty ''Count'' VNone)"
  using ElementProperty_init_TypeError [of ValueProperty "''Count''" "VList [VInt 1]" TypeError]
  by (simp add: ElementProperty_init_def isinstance_def)

section \<open>VerticesProperty on blank text\<close>

lemma strip_Nil: "strip [] = []"
  by (simp add: strip_def)

lemma strip_NL: "strip [NL] = []"
  by (simp add: strip_def is_space_def)

lemma blank_Some_strip: "blank (Some s) \<Longrightarrow> strip s = []"
  by (auto simp: blank_def strip_Nil)

lemma read_lines_empty_line:
  "read_lines e [[]] [] = Inl (read_value_error ''VerticesProperty'' e)"
  by (simp add: strip_Nil)

lemma VerticesProperty_from_xml_Some:
  "etext e = Some s \<Longrightarrow>
   VerticesProperty_from_xml e =
     bind (read_lines e (split NL (strip s)) [])
       (\<lambda>vs. Inr (ElementProperty VerticesProperty (tag e) (VList vs)))"
  by (simp add: VerticesProperty_from_xml_def bind_def ElementProperty_init_def py_or_def)

text \<open>
  C10. Reading fails on every element whose text is absent, empty or whitespace only
  (AttributeError when absent, the malformed-element ValueError otherwise); the element
  written for the empty vertex list has the text of one newline, and reading it fails.
\<close>

theorem VerticesProperty_from_xml_blank:
  "(blank (etext e) \<longrightarrow>
      VerticesProperty_from_xml e =
        Inl (if etext e = None then AttributeError ''strip''
             else read_value_error ''VerticesProperty'' e))
   \<and> VerticesProperty_to_xml t (VList []) = Inr (Element t [] (Some [NL]) None [])
   \<and> VerticesProperty_from_xml (Element t [] (Some [NL]) None [])
       = Inl (read_value_error ''VerticesProperty'' (Element t [] (Some [NL]) None []))"
proof (intro conjI impI)
  assume b: "blank (etext e)"
  show "VerticesProperty_from_xml e =
        Inl (if etext e = None then AttributeError ''strip''
             else read_value_error ''VerticesProperty'' e)"
  proof (cases "etext e")
    case None
    then show ?thesis
      by (simp add: VerticesProperty_from_xml_def bind_def ElementProperty_init_def py_or_def)
  next
    case (Some s)
    with b have "strip s = []" by (simp add: blank_Some_strip)
    with Some show ?thesis
      by (simp add: VerticesProperty_from_xml_Some read_lines_empty_line bind_def
            del: read_lines.simps)
  qed
next
  show "VerticesProperty_to_xml t (VList []) = Inr (Element t [] (Some [NL]) None [])"
    by (simp add: VerticesProperty_to_xml_def bind_def)
next
  show "VerticesProperty_from_xml (Element t [] (Some [NL]) None [])
       = Inl (read_value_error ''VerticesProperty'' (Element t [] (Some [NL]) None []))"
    by (simp add: VerticesProperty_from_xml_Some strip_NL read_lines_empty_line bind_def
          del: read_lines.simps)
qed

theorem VerticesProperty_from_xml_blank_witness:
  "blank (etext (Element ''Vertices'' [] (Some ''  '') None []))
   \<and> VerticesProperty_from_xml (Element ''Vertices'' [] (Some ''  '') None [])
       = Inl (read_value_error ''VerticesProperty'' (Element ''Vertices'' [] (Some ''  '') None []))"
proof -
  have h: "blank (etext (Element ''Vertices'' [] (Some ''  '') None []))"
    by (simp add: blank_def strip_def is_space_def)
  show ?thesis
    using h VerticesProperty_from_xml_blank [of "Element ''Vertices'' [] (Some ''  '') None []"]
    by simp
qed


section \<open>The pretty-printer applied twice\<close>

lemma is_space_NL: "is_space NL"
  by (simp add: is_space_def)

lemma is_space_times_amount: "c \<in> set (times n amount) \<Longrightarrow> is_space c"
proof -
  have "set (times n amount) \<subseteq> {CHR '' ''}"
    by (induction n) (auto simp: times_def amount_def)
  moreover have "is_space (CHR '' '')"
    by (simp add: is_space_def)
  ultimately show "c \<in> set (times n amount) \<Longrightarrow> is_space c"
    by auto
qed

lemma strip_all_space: "\<forall>c\<in>set s. is_space c \<Longrightarrow> strip s = []"
proof -
  assume "\<forall>c\<in>set s. is_space c"
  then have "dropWhile is_space s = []"
    using dropWhile_eq_Nil_conv [of is_space s] by blast
  then show ?thesis by (simp only: strip_def rev.simps dropWhile.simps)
qed

lemma strip_space_left: "\<forall>c\<in>set a. is_space c \<Longrightarrow> strip (a @ s) = strip s"
  by (simp add: strip_def)

lemma strip_space_right:
  assumes "\<forall>c\<in>set b. is_space c"
  shows "strip (s @ b) = strip s"
proof (cases "\<forall>c\<in>set s. is_space c")
  case True
  with assms have "\<forall>c\<in>set (s @ b). is_space c" by auto
  then have "strip (s @ b) = []" by (rule strip_all_space)
  moreover have "strip s = []" using True by (rule strip_all_space)
  ultimately show ?thesis by simp
next
  case False
  then have "dropWhile is_space (s @ b) = dropWhile is_space s @ b"
    by (auto simp: dropWhile_append)
  moreover have "dropWhile is_space (rev b @ xs) = dropWhile is_space xs" for xs
    by (rule dropWhile_append2) (use assms in auto)
  ultimately show ?thesis by (simp add: strip_def)
qed

lemma dropWhile_rev_prefix:
  assumes "u = [] \<or> \<not> P (hd u)"
  shows "dropWhile P (rev (dropWhile P (rev u))) = rev (dropWhile P (rev u))"
proof (cases "rev (dropWhile P (rev u))")
  case Nil
  show ?thesis unfolding Nil by simp
next
  case (Cons x w)
  have "u = rev (dropWhile P (rev u)) @ rev (takeWhile P (rev u))"
    by (metis rev_append rev_rev_ident takeWhile_dropWhile_id)
  with Cons have "u = x # w @ rev (takeWhile P (rev u))" by simp
  then have "hd u = x" by (metis list.sel(1))
  moreover from Cons have "u \<noteq> []" by auto
  ultimately have "\<not> P x" using assms by simp
  with Cons show ?thesis by simp
qed

lemma dropWhile_strip: "dropWhile is_space (strip s) = strip s"
  unfolding strip_def
  by (rule dropWhile_rev_prefix) (metis hd_dropWhile)

lemma strip_strip: "strip (strip s) = strip s"
proof -
  have "strip (strip s) = rev (dropWhile is_space (rev (strip s)))"
    by (subst strip_def) (simp add: dropWhile_strip)
  also have "\<dots> = strip s"
    by (simp add: strip_def)
  finally show ?thesis .
qed

lemma split_no_sep: "sep \<notin> set s \<Longrightarrow> split sep s = [s]"
  by (induction s) auto

lemma blank_all_space: "\<forall>c\<in>set s. is_space c \<Longrightarrow> blank (Some s)"
  by (simp add: blank_def strip_all_space)

lemma blank_indent: "blank (Some ([NL] @ times n amount))"
  by (rule blank_all_space) (auto simp: is_space_NL dest: is_space_times_amount)

lemma blank_indent_amount: "blank (Some (([NL] @ times n amount) @ amount))"
proof (rule blank_all_space)
  have "c \<in> set amount \<Longrightarrow> is_space c" for c
    using is_space_times_amount [of c 1] by (simp add: times_def)
  then show "\<forall>c\<in>set (([NL] @ times n amount) @ amount). is_space c"
    by (auto simp: is_space_NL dest: is_space_times_amount)
qed

lemma strip_indented_line:
  "strip ([NL] @ times n amount @ s @ [NL] @ times m amount) = strip s"
proof -
  have "strip (([NL] @ times n amount) @ (s @ [NL] @ times m amount))
          = strip (s @ [NL] @ times m amount)"
    by (rule strip_space_left) (auto simp: is_space_NL dest: is_space_times_amount)
  also have "\<dots> = strip s"
    by (rule strip_space_right) (auto simp: is_space_NL dest: is_space_times_amount)
  finally show ?thesis by simp
qed

lemma indent_text_idem:
  assumes "case tx of None \<Rightarrow> True | Some t \<Rightarrow> NL \<notin> set (strip t)"
  shows "indent_text level (indent_text level tx) = indent_text level tx"
proof (cases tx)
  case None
  then show ?thesis by (simp add: indent_text_def)
next
  case (Some t)
  with assms have nl: "NL \<notin> set (strip t)" by simp
  show ?thesis
  proof (cases "t \<noteq> [] \<and> 0 < length (strip t) \<and> NL \<in> set t")
    case False
    then show ?thesis using Some by (auto simp: indent_text_def)
  next
    case True
    define r where "r = [NL] @ times (level + 1) amount @ strip t @ [NL] @ times level amount"
    have first: "indent_text level tx = Some r"
      using True Some nl by (simp add: indent_text_def split_no_sep r_def)
    have sr: "strip r = strip t"
      unfolding r_def by (simp only: strip_indented_line strip_strip)
    have "r \<noteq> []" "NL \<in> set r"
      by (simp_all add: r_def)
    then have "indent_text level (Some r) = Some r"
      using True nl by (simp add: indent_text_def sr split_no_sep) (simp add: r_def)
    with first show ?thesis by simp
  qed
qed

lemma indent_tail:
  "indent (Element tg at tx t cs) l =
     (case indent (Element tg at tx None cs) l of
        Element tg' at' tx' t' cs' \<Rightarrow>
          Element tg' at' tx'
            (if (cs \<noteq> [] \<or> l \<noteq> 0) \<and> blank t then Some ([NL] @ times l amount) else t) cs')"
  by (simp add: Let_def blank_def)

lemma reset_tail_fixed:
  assumes "indent x (Suc l) = x"
  shows "set_tail_if_blank ([NL] @ times l amount)
           (indent (set_tail_if_blank ([NL] @ times l amount) x) (Suc l))
         = set_tail_if_blank ([NL] @ times l amount) x"
proof (cases x)
  case (Element tg at tx t cs)
  show ?thesis
  proof (cases "blank t")
    case False
    then show ?thesis using assms Element by (simp add: set_tail_if_blank_def del: indent.simps)
  next
    case True
    have "indent (Element tg at tx (Some ([NL] @ times l amount)) cs) (Suc l)
            = indent (Element tg at tx t cs) (Suc l)"
      using True blank_indent [of l]
      by (subst indent_tail, subst (2) indent_tail) (simp del: indent.simps)
    then show ?thesis
      using True assms Element by (simp add: set_tail_if_blank_def del: indent.simps)
  qed
qed

lemma indent_fixed_nonleaf:
  assumes i: "i = [NL] @ times l amount"
    and m: "map (\<lambda>c. indent c (Suc l)) bs = bs"
    and z: "set_tail_if_blank i (indent z (Suc l)) = z"
    and tx': "tx' = (if blank tx then Some (i @ amount) else tx)"
    and t': "t' = (if blank t then Some i else t)"
    and b1: "blank (Some i)"
    and b2: "blank (Some (i @ amount))"
  shows "indent (Element tg at tx' t' (bs @ [z])) l = Element tg at tx' t' (bs @ [z])"
proof -
  have 1: "(if blank tx' then Some (i @ amount) else tx') = tx'"
    by (cases "blank tx") (simp_all add: tx' b2)
  have 2: "(if blank t' then Some i else t') = t'"
    by (cases "blank t") (simp_all add: t' b1)
  have "indent (Element tg at tx' t' (bs @ [z])) l =
      Element tg at (if blank tx' then Some (i @ amount) else tx')
        (if blank t' then Some i else t')
        (map (\<lambda>c. indent c (Suc l)) bs @ [set_tail_if_blank i (indent z (Suc l))])"
    unfolding i by (subst indent.simps) (simp add: Let_def del: indent.simps)
  then show ?thesis
    by (simp only: 1 2 m z)
qed

text \<open>
  C4. The pass applied twice is specified to equal the pass applied once on every tree,
  leaves with several lines of text included. It does on every tree whose leaves carry at
  most one line of text once stripped.
\<close>

theorem indent_idempotent:
  "single_line_leaves e \<Longrightarrow> indent (indent e level) level = indent e level"
proof (induction e level rule: indent.induct)
  case (1 tg at tx t cs level)
  define i where "i = [NL] @ times level amount"
  define f where "f = (\<lambda>c. indent c (Suc level))"
  have bi: "blank (Some i)" "blank (Some (i @ amount))"
    unfolding i_def by (rule blank_indent, rule blank_indent_amount)
  show ?case
  proof (cases "cs = []")
    case True
    with "1.prems" have "case tx of None \<Rightarrow> True | Some t \<Rightarrow> NL \<notin> set (strip t)"
      by simp
    then have "indent_text level (indent_text level tx) = indent_text level tx"
      by (rule indent_text_idem)
    then show ?thesis
      using True bi by (simp add: Let_def i_def)
  next
    case False
    have ih: "f (f c) = f c" if "c \<in> set cs" for c
      using "1.IH" [OF refl False that] "1.prems" False that
      by (simp add: f_def list_all_iff del: indent.simps)
    have "map f (map f cs) = map f cs"
      by (simp add: ih del: indent.simps)
    then have fr: "map f (butlast (map f cs)) = butlast (map f cs)"
      by (metis map_butlast)
    have "f (f (last cs)) = f (last cs)"
      using False by (intro ih) simp
    then have "set_tail_if_blank i (f (set_tail_if_blank i (f (last cs))))
                 = set_tail_if_blank i (f (last cs))"
      unfolding i_def f_def by (rule reset_tail_fixed)
    then have bk: "set_tail_if_blank i (f (set_tail_if_blank i (last (map f cs))))
                       = set_tail_if_blank i (last (map f cs))"
      using False by (simp add: last_map del: indent.simps)
    have first: "indent (Element tg at tx t cs) level =
        Element tg at (if blank tx then Some (i @ amount) else tx) (if blank t then Some i else t)
          (butlast (map f cs) @ [set_tail_if_blank i (last (map f cs))])"
      using False by (simp add: Let_def i_def f_def)
    have "indent (Element tg at (if blank tx then Some (i @ amount) else tx) (if blank t then Some i else t)
          (butlast (map f cs) @ [set_tail_if_blank i (last (map f cs))])) level
       = Element tg at (if blank tx then Some (i @ amount) else tx) (if blank t then Some i else t)
          (butlast (map f cs) @ [set_tail_if_blank i (last (map f cs))])"
      unfolding f_def
      by (rule indent_fixed_nonleaf
            [OF i_def fr [unfolded f_def] bk [unfolded f_def] refl refl bi])
    with first show ?thesis by (simp only:)
  qed
qed

theorem indent_idempotent_witness:
  "single_line_leaves (Element ''Drawable'' [] None None
       [Element ''Name'' [] (Some (''  body'' @ [NL])) None [], Element ''Flags'' [] (Some ''A, B'') None []])
   \<and> indent (indent (Element ''Drawable'' [] None None
       [Element ''Name'' [] (Some (''  body'' @ [NL])) None [], Element ''Flags'' [] (Some ''A, B'') None []]) 0) 0
     = indent (Element ''Drawable'' [] None None
       [Element ''Name'' [] (Some (''  body'' @ [NL])) None [], Element ''Flags'' [] (Some ''A, B'') None []]) 0"
proof -
  have h: "single_line_leaves (Element ''Drawable'' [] None None
       [Element ''Name'' [] (Some (''  body'' @ [NL])) None [], Element ''Flags'' [] (Some ''A, B'') None []])"
    by (simp add: strip_def is_space_def)
  show ?thesis
    using h indent_idempotent [OF h, of 0] by (simp only: simp_thms)
qed

theorem indent_twice_counterexample:
  "indent (indent (Element ''Vertices'' [] (Some (''1, 2, 3'' @ [NL] @ ''4, 5, 6'')) None []) 0) 0
     \<noteq> indent (Element ''Vertices'' [] (Some (''1, 2, 3'' @ [NL] @ ''4, 5, 6'')) None []) 0"
  by code_simp


section \<open>Reading under a foreign root tag\<close>

lemma find_children:
  "find (Element tg at tx tail cs) t = find (Element tg [] tx tail cs) t"
  by (simp add: find_def)

lemma read_fields_ignores_attrib:
  "tag_name cls \<noteq> tg \<Longrightarrow>
   read_fields cls (Element tg at tx tail cs) fs new
     = read_fields cls (Element tg [] tx tail cs) fs new"
proof (induction fs arbitrary: new)
  case Nil
  show ?case by simp
next
  case (Cons f fs)
  obtain k obj where f: "f = (k, obj)" by (cases f)
  show ?case
    unfolding f
    by (cases obj) (simp_all add: Cons find_children [of tg at tx tail cs] split: option.splits)
qed

lemma read_fields_foreign_tag:
  "tag_name cls \<noteq> tg \<Longrightarrow>
   read_fields cls (Element tg at tx tail cs) fs new
     = read_fields cls (Element (tag_name cls) [] tx tail cs) fs new"
proof (induction fs arbitrary: new)
  case Nil
  show ?case by simp
next
  case (Cons f fs)
  obtain k obj where f: "f = (k, obj)" by (cases f)
  show ?case
    unfolding f
    by (cases obj) (simp_all add: Cons find_def split: option.splits)
qed

lemma read_fields_Inr:
  "read_fields cls e fs new = Inr d \<Longrightarrow> \<exists>fields. d = ElementTree cls fields"
proof (induction fs arbitrary: new)
  case Nil
  then show ?case by auto
next
  case (Cons f fs)
  obtain k obj where f: "f = (k, obj)" by (cases f)
  show ?case
    using Cons.prems unfolding f
    by (cases obj) (auto simp: bind_def dest: Cons.IH split: option.splits if_splits sum.splits)
qed

lemma read_fields_keeps:
  "tag e \<noteq> tag_name cls \<Longrightarrow> read_fields cls e fs new = Inr d \<Longrightarrow>
   \<forall>obj. (k, obj) \<in> set fs \<longrightarrow> \<not> is_Element obj \<Longrightarrow>
   \<exists>fields. d = ElementTree cls fields \<and> map_of fields k = map_of new k"
proof (induction fs arbitrary: new)
  case Nil
  then show ?case by auto
next
  case (Cons f fs)
  obtain k' obj where f: "f = (k', obj)" by (cases f)
  have kfs: "\<forall>obj. (k, obj) \<in> set fs \<longrightarrow> \<not> is_Element obj"
    using Cons.prems(3) by auto
  have k': "is_Element obj \<Longrightarrow> k' \<noteq> k"
    using Cons.prems(3) by (auto simp: f)
  have step: "\<exists>fields. d = ElementTree cls fields \<and> map_of fields k = map_of new' k"
    if "read_fields cls e fs new' = Inr d" for new'
    using Cons.IH [OF Cons.prems(1) that kfs] .
  have upd: "k' \<noteq> k \<Longrightarrow> map_of (setattr cls new k' p) k = map_of new k" for p
    by (simp add: setattr_def update_conv' Let_def)
  show ?case
    using Cons.prems(1,2) k' upd
    unfolding f
    by (cases obj)
       (auto simp: bind_def dest!: step split: option.splits if_splits sum.splits)
qed

text \<open>
  C3. When the tag of the root element differs from the declared tag of the Document type,
  reading does not fail on that account, and the module has no error for it: the outcome,
  value or exception, is the one of reading an element that has the declared tag, no
  attributes, and the same text, tail and children. So the element-bound fields are read
  from the children as under the declared tag, the attributes of the element are ignored,
  and in a returned Document every field that is not element-bound (the attribute-bound
  ones among them) is the one of a new instance.
\<close>

theorem ElementTree_from_xml_foreign_tag:
  assumes "tag e \<noteq> tag_name cls"
  shows "ElementTree_from_xml cls e
           = ElementTree_from_xml cls (Element (tag_name cls) [] (etext e) (etail e) (children e))
    \<and> ElementTree_from_xml cls e
           = ElementTree_from_xml cls (Element (tag e) [] (etext e) (etail e) (children e))
    \<and> (ElementTree_from_xml cls e = Inr d \<longrightarrow>
         (\<exists>fields. d = ElementTree cls fields \<and>
            (\<forall>k. (\<forall>obj. (k, obj) \<in> set (defaults cls) \<longrightarrow> \<not> is_Element obj) \<longrightarrow>
               map_of fields k = map_of (defaults cls) k)))"
proof (intro conjI impI)
  show "ElementTree_from_xml cls e
          = ElementTree_from_xml cls (Element (tag_name cls) [] (etext e) (etail e) (children e))"
    using assms read_fields_foreign_tag [of cls "tag e" "attrib e" "etext e" "etail e" "children e"]
    by auto
next
  show "ElementTree_from_xml cls e
          = ElementTree_from_xml cls (Element (tag e) [] (etext e) (etail e) (children e))"
    using assms read_fields_ignores_attrib [of cls "tag e" "attrib e" "etext e" "etail e" "children e"]
    by auto
next
  assume r: "ElementTree_from_xml cls e = Inr d"
  then have rf: "read_fields cls e (defaults cls) (defaults cls) = Inr d" by simp
  obtain fields where d: "d = ElementTree cls fields"
    using read_fields_Inr [OF rf] by blast
  show "\<exists>fields. d = ElementTree cls fields \<and>
          (\<forall>k. (\<forall>obj. (k, obj) \<in> set (defaults cls) \<longrightarrow> \<not> is_Element obj) \<longrightarrow>
             map_of fields k = map_of (defaults cls) k)"
    using read_fields_keeps [OF assms rf] d by blast
qed

text \<open>A box class read from a sphere element: the size is read, the name is not.\<close>

theorem ElementTree_from_xml_foreign_tag_counterexample:
  "tag (Element ''Sphere'' [(''name'', VStr ''ball'')] None None
          [Element ''Size'' [(''value'', VStr ''7'')] None None []])
     \<noteq> tag_name (TClass ''Box'' ''Box''
          [(''name'', AttributeProperty ''name'' (VStr ''unnamed'')),
           (''size'', ElementProperty ValueProperty ''Size'' (VInt 0))])
   \<and> ElementTree_from_xml
        (TClass ''Box'' ''Box''
          [(''name'', AttributeProperty ''name'' (VStr ''unnamed'')),
           (''size'', ElementProperty ValueProperty ''Size'' (VInt 0))])
        (Element ''Sphere'' [(''name'', VStr ''ball'')] None None
          [Element ''Size'' [(''value'', VStr ''7'')] None None []])
     = Inr (ElementTree
        (TClass ''Box'' ''Box''
          [(''name'', AttributeProperty ''name'' (VStr ''unnamed'')),
           (''size'', ElementProperty ValueProperty ''Size'' (VInt 0))])
        [(''name'', AttributeProperty ''name'' (VStr ''unnamed'')),
         (''size'', ElementProperty ValueProperty ''Size'' (VInt 7))])"
  by code_simp

theorem ElementTree_from_xml_foreign_tag_witness:
  "tag (Element ''Sphere'' [(''name'', VStr ''ball'')] None None
          [Element ''Size'' [(''value'', VStr ''7'')] None None []])
     \<noteq> tag_name (TClass ''Box'' ''Box''
          [(''name'', AttributeProperty ''name'' (VStr ''unnamed'')),
           (''size'', ElementProperty ValueProperty ''Size'' (VInt 0))])
   \<and> ElementTree_from_xml
        (TClass ''Box'' ''Box''
          [(''name'', AttributeProperty ''name'' (VStr ''unnamed'')),
           (''size'', ElementProperty ValueProperty ''Size'' (VInt 0))])
        (Element ''Sphere'' [(''name'', VStr ''ball'')] None None
          [Element ''Size'' [(''value'', VStr ''7'')] None None []])
     = ElementTree_from_xml
        (TClass ''Box'' ''Box''
          [(''name'', AttributeProperty ''name'' (VStr ''unnamed'')),
           (''size'', ElementProperty ValueProperty ''Size'' (VInt 0))])
        (Element ''Sphere'' [] None None [Element ''Size'' [(''value'', VStr ''7'')] None None []])
   \<and> ElementTree_from_xml
        (TClass ''Box'' ''Box''
          [(''name'', AttributeProperty ''name'' (VStr ''unnamed'')),
           (''size'', ElementProperty ValueProperty ''Size'' (VInt 0))])
        (Element ''Sphere'' [(''name'', VStr ''ball'')] None None
          [Element ''Size'' [(''value'', VStr ''7'')] None None []])
     = ElementTree_from_xml
        (TClass ''Box'' ''Box''
          [(''name'', AttributeProperty ''name'' (VStr ''unnamed'')),
           (''size'', ElementProperty ValueProperty ''Size'' (VInt 0))])
        (Element ''Box'' [] None None [Element ''Size'' [(''value'', VStr ''7'')] None None []])
   \<and> (\<exists>fields. ElementTree_from_xml
        (TClass ''Box'' ''Box''
          [(''name'', AttributeProperty ''name'' (VStr ''unnamed'')),
           (''size'', ElementProperty ValueProperty ''Size'' (VInt 0))])
        (Element ''Sphere'' [(''name'', VStr ''ball'')] None None
          [Element ''Size'' [(''value'', VStr ''7'')] None None []]) = Inr (ElementTree (TClass ''Box'' ''Box''
          [(''name'', AttributeProperty ''name'' (VStr ''unnamed'')),
           (''size'', ElementProperty ValueProperty ''Size'' (VInt 0))]) fields)
      \<and> map_of fields ''name'' = Some (AttributeProperty ''name'' (VStr ''unnamed'')))"
proof -
  let ?B = "(TClass ''Box'' ''Box''
          [(''name'', AttributeProperty ''name'' (VStr ''unnamed'')),
           (''size'', ElementProperty ValueProperty ''Size'' (VInt 0))])"
  let ?S = "(Element ''Sphere'' [(''name'', VStr ''ball'')] None None
          [Element ''Size'' [(''value'', VStr ''7'')] None None []])"
  let ?D = "(ElementTree
        (TClass ''Box'' ''Box''
          [(''name'', AttributeProperty ''name'' (VStr ''unnamed'')),
           (''size'', ElementProperty ValueProperty ''Size'' (VInt 0))])
        [(''name'', AttributeProperty ''name'' (VStr ''unnamed'')),
         (''size'', ElementProperty ValueProperty ''Size'' (VInt 7))])"
  have h: "tag ?S \<noteq> tag_name ?B" by simp
  have r: "ElementTree_from_xml ?B ?S = Inr ?D" by code_simp
  have a: "\<forall>obj. (''name'', obj) \<in> set (defaults ?B) \<longrightarrow> \<not> is_Element obj" by auto
  have m: "map_of (defaults ?B) ''name'' = Some (AttributeProperty ''name'' (VStr ''unnamed''))"
    by simp
  note t = ElementTree_from_xml_foreign_tag [OF h, of ?D]
  have t1: "ElementTree_from_xml ?B ?S
     = ElementTree_from_xml ?B (Element ''Sphere'' [] None None [Element ''Size'' [(''value'', VStr ''7'')] None None []])"
    using t [THEN conjunct2, THEN conjunct1] by (simp only: element.sel)
  have t0: "ElementTree_from_xml ?B ?S
     = ElementTree_from_xml ?B (Element ''Box'' [] None None [Element ''Size'' [(''value'', VStr ''7'')] None None []])"
    using t [THEN conjunct1] by (simp only: element.sel tag_name.simps)
  obtain fields where f: "?D = ElementTree ?B fields" "map_of fields ''name'' = map_of (defaults ?B) ''name''"
    using t [THEN conjunct2, THEN conjunct2, rule_format, OF r] a by blast
  show ?thesis
    using h t1 t0 r f m by (intro conjI exI [of _ fields]) simp_all
qed

section \<open>A Document written and read back\<close>






lemma attribute_names_Cons:
  "attribute_names ((k, w) # fs)
     = (case w of AttributeProperty n v \<Rightarrow> n # attribute_names fs | _ \<Rightarrow> attribute_names fs)"
  by (cases w) auto



















end
